theory Spec2Isabelle
  imports Main "HOL-Library.Word" "HOL-Library.Multiset"
begin

unbundle bit_operations_syntax

section \<open>The symbol decoder (package sym)\<close>

subsection \<open>The byte stream\<close>

text \<open>
  The decoder reads from an \<open>io.Reader\<close>. The reader is modelled as the list of the bytes
  that are still unread; every read returns its result together with the reader after the
  read, so that the number of bytes a parse consumed is the difference of two lengths.
\<close>

type_synonym byte = "8 word"
type_synonym reader = "byte list"

text \<open>
  The errors the decoder can return. \<open>errors.WithStack\<close> only attaches a stack trace and
  keeps the cause, so it is the identity here. \<open>ErrKindNotImplemented k\<close> is the value of
  \<open>errors.Errorf("support for symbol kind 0x%02X not yet implemented", uint8(kind))\<close>;
  its text is \<open>error_Error\<close> below.
\<close>

datatype error = EOF | ErrUnexpectedEOF | ErrKindNotImplemented byte

type_synonym 'a parser = "reader \<Rightarrow> (error + 'a) \<times> reader"

text \<open>
  \<open>io.ReadFull(r, buf)\<close> with \<open>len(buf) = n\<close>: all \<open>n\<close> bytes, or \<open>io.EOF\<close> when
  no byte could be read, or \<open>io.ErrUnexpectedEOF\<close> when the stream ended after some but
  not all of them (the bytes read so far are consumed). A read of zero bytes succeeds.
\<close>

definition ReadFull :: "nat \<Rightarrow> byte list parser" where
  "ReadFull n r =
     (if n \<le> length r then (Inr (take n r), drop n r)
      else if r = [] then (Inl EOF, [])
      else (Inl ErrUnexpectedEOF, []))"

text \<open>Little-endian decoding of an unsigned integer, least significant byte first.\<close>

fun le_uint :: "byte list \<Rightarrow> 'a::len word" where
  "le_uint [] = 0"
| "le_uint (b # bs) = ucast b OR push_bit 8 (le_uint bs)"

definition andThen :: "'a parser \<Rightarrow> ('a \<Rightarrow> 'b parser) \<Rightarrow> 'b parser" where
  "andThen p f r = (case p r of (Inl e, r') \<Rightarrow> (Inl e, r') | (Inr v, r') \<Rightarrow> f v r')"

definition ret :: "'a \<Rightarrow> 'a parser" where
  "ret v r = (Inr v, r)"

text \<open>
  \<open>binary.Read(r, binary.LittleEndian, &x)\<close> for a fixed-size unsigned \<open>x\<close>, and a
  \<open>struc\<close> field tagged \<open>uintN,little\<close>: both are an \<open>io.ReadFull\<close> of the field's
  size followed by the little-endian decoding.
\<close>

definition read_u8 :: "8 word parser" where
  "read_u8 = andThen (ReadFull 1) (\<lambda>bs. ret (le_uint bs))"

definition read_u16 :: "16 word parser" where
  "read_u16 = andThen (ReadFull 2) (\<lambda>bs. ret (le_uint bs))"

definition read_u32 :: "32 word parser" where
  "read_u32 = andThen (ReadFull 4) (\<lambda>bs. ret (le_uint bs))"

subsection \<open>Symbols\<close>

text \<open>
  \<open>Kind\<close> is an unsigned byte: the header field is tagged \<open>uint8\<close>, and the error
  message converts it with \<open>uint8(kind)\<close>.
\<close>

type_synonym Kind = byte

text \<open>
  Modelled from the spec: the constants \<open>KindName1\<close>, \<open>KindName2\<close>, \<open>KindDef\<close>,
  \<open>KindDef2\<close> and \<open>KindOverlay\<close>, which the package declares in a file that is not
  among its sources here. Their values are the ones of the specification
  (name-local=0x01, name-global=0x02, definition=0x94, definition-extended=0x96,
  overlay=0x98); the section headings of the source file give the same.
\<close>

definition KindName1 :: Kind where "KindName1 = 0x01"
definition KindName2 :: Kind where "KindName2 = 0x02"
definition KindDef :: Kind where "KindDef = 0x94"
definition KindDef2 :: Kind where "KindDef2 = 0x96"
definition KindOverlay :: Kind where "KindOverlay = 0x98"

record SymbolHeader =
  Value :: "32 word"
  Kind :: Kind

record Name1 =
  NameLen :: "8 word"
  Name :: "byte list"

record Name2 =
  NameLen :: "8 word"
  Name :: "byte list"

record Def =
  Class :: "16 word"
  Type :: "16 word"
  Size :: "32 word"
  NameLen :: "8 word"
  Name :: "byte list"

type_synonym Dimensions = "16 word list"

record Def2 =
  Class :: "16 word"
  Type :: "16 word"
  Size :: "32 word"
  Dims :: "Dimensions list"
  TagLen :: "8 word"
  Tag :: "byte list"
  NameLen :: "8 word"
  Name :: "byte list"

record Overlay =
  Length :: "32 word"
  ID :: "32 word"

text \<open>\<open>SymbolBody\<close> is the interface implemented by the five body types.\<close>

datatype SymbolBody =
  BodyName1 Name1
| BodyName2 Name2
| BodyDef Def
| BodyDef2 Def2
| BodyOverlay Overlay

text \<open>
  A \<open>Symbol\<close> holds a pointer to its header and its body as an interface value; either can
  be \<open>nil\<close>, which is \<open>None\<close>.
\<close>

record Symbol =
  Hdr :: "SymbolHeader option"
  Body :: "SymbolBody option"

subsection \<open>Body sizes\<close>

definition Name1_BodySize :: "Name1 \<Rightarrow> nat" where
  "Name1_BodySize body = 1 + unat (Name1.NameLen body)"

definition Name2_BodySize :: "Name2 \<Rightarrow> nat" where
  "Name2_BodySize body = 1 + unat (Name2.NameLen body)"

definition Def_BodySize :: "Def \<Rightarrow> nat" where
  "Def_BodySize body = 2 + 2 + 4 + 1 + unat (Def.NameLen body)"

definition Def2_BodySize :: "Def2 \<Rightarrow> nat" where
  "Def2_BodySize body =
     (let dimsLen = foldl (\<lambda>dimsLen dims. dimsLen + 2 * length dims) 0 (Def2.Dims body)
      in 2 + 2 + 4 + dimsLen + 1 + unat (Def2.TagLen body) + 1 + unat (Def2.NameLen body))"

definition Overlay_BodySize :: "Overlay \<Rightarrow> nat" where
  "Overlay_BodySize body = 4 + 4"

fun BodySize :: "SymbolBody \<Rightarrow> nat" where
  "BodySize (BodyName1 body) = Name1_BodySize body"
| "BodySize (BodyName2 body) = Name2_BodySize body"
| "BodySize (BodyDef body) = Def_BodySize body"
| "BodySize (BodyDef2 body) = Def2_BodySize body"
| "BodySize (BodyOverlay body) = Overlay_BodySize body"

text \<open>
  \<open>binary.Size(*sym.Hdr)\<close>: the encoded size of a \<open>uint32\<close> and a \<open>uint8\<close>.
\<close>

definition hdrSize :: nat where
  "hdrSize = 4 + 1"

text \<open>
  \<open>Symbol.Size\<close>. Both \<open>*sym.Hdr\<close> and the method call on \<open>sym.Body\<close> panic on
  \<open>nil\<close>; the panic is \<open>None\<close>.
\<close>

definition Symbol_Size :: "Symbol \<Rightarrow> nat option" where
  "Symbol_Size symb =
     (case Hdr symb of
        None \<Rightarrow> None
      | Some hdr \<Rightarrow>
          (case Body symb of
             None \<Rightarrow> None
           | Some body \<Rightarrow> Some (hdrSize + BodySize body)))"

subsection \<open>Parsing\<close>

text \<open>
  \<open>struc.Unpack\<close> on a struct reads its tagged fields in declaration order; a string field
  named by a \<open>sizeof=\<close> tag is read with the length the earlier field gave.
\<close>

definition parseSymbolHeader :: "SymbolHeader parser" where
  "parseSymbolHeader =
     andThen read_u32 (\<lambda>v.
     andThen read_u8 (\<lambda>k.
     ret \<lparr>Value = v, Kind = k\<rparr>))"

definition Unpack_Name1 :: "Name1 parser" where
  "Unpack_Name1 =
     andThen read_u8 (\<lambda>n.
     andThen (ReadFull (unat n)) (\<lambda>s.
     ret \<lparr>Name1.NameLen = n, Name1.Name = s\<rparr>))"

definition Unpack_Name2 :: "Name2 parser" where
  "Unpack_Name2 =
     andThen read_u8 (\<lambda>n.
     andThen (ReadFull (unat n)) (\<lambda>s.
     ret \<lparr>Name2.NameLen = n, Name2.Name = s\<rparr>))"

definition Unpack_Def :: "Def parser" where
  "Unpack_Def =
     andThen read_u16 (\<lambda>c.
     andThen read_u16 (\<lambda>t.
     andThen read_u32 (\<lambda>sz.
     andThen read_u8 (\<lambda>n.
     andThen (ReadFull (unat n)) (\<lambda>s.
     ret \<lparr>Def.Class = c, Def.Type = t, Def.Size = sz, Def.NameLen = n, Def.Name = s\<rparr>)))))"

definition Unpack_Overlay :: "Overlay parser" where
  "Unpack_Overlay =
     andThen read_u32 (\<lambda>l.
     andThen read_u32 (\<lambda>i.
     ret \<lparr>Length = l, ID = i\<rparr>))"

text \<open>
  \<open>Dimensions.Unpack\<close>: the loop reads one 16-bit value per round, appends it to
  \<open>*dims\<close> and leaves after appending a zero. A failed read is reported as
  \<open>io.ErrUnexpectedEOF\<close>, whether \<open>binary.Read\<close> found no byte (\<open>io.EOF\<close>) or a
  single one. The first argument is \<open>*dims\<close> on entry.
\<close>

fun Dimensions_Unpack :: "Dimensions \<Rightarrow> Dimensions parser" where
  "Dimensions_Unpack dims (b0 # b1 # r) =
     (let dim = le_uint [b0, b1]; dims' = dims @ [dim]
      in if dim = 0 then (Inr dims', r) else Dimensions_Unpack dims' r)"
| "Dimensions_Unpack dims [b0] = (Inl ErrUnexpectedEOF, [])"
| "Dimensions_Unpack dims [] = (Inl ErrUnexpectedEOF, [])"

text \<open>
  The loop of \<open>parseDef2\<close> that unpacks \<open>narray\<close> dimension groups, each into a fresh
  \<open>var dims Dimensions\<close>, and appends them to \<open>body.Dims\<close> (the second argument).
\<close>

fun readDims :: "nat \<Rightarrow> Dimensions list \<Rightarrow> Dimensions list parser" where
  "readDims 0 acc r = (Inr acc, r)"
| "readDims (Suc n) acc r =
     (case Dimensions_Unpack [] r of
        (Inl e, r') \<Rightarrow> (Inl e, r')
      | (Inr dims, r') \<Rightarrow> readDims n (acc @ [dims]) r')"

text \<open>
  \<open>parseDef2\<close>. The method \<open>Type.mods\<close>, which lists the modifiers of an encoded type, is
  declared in a file that is not among the sources here; it is the parameter \<open>mods\<close>. \<open>0x3\<close> is the array
  modifier, and \<open>narrayOf\<close> is the value of \<open>narray\<close> when the loop over the dimension
  groups starts.
\<close>

definition narrayOf :: "(16 word \<Rightarrow> 16 word list) \<Rightarrow> 16 word \<Rightarrow> nat" where
  "narrayOf mods t =
     (let narray = length (filter (\<lambda>m. m = 0x3) (mods t))
      in if narray = 0 then 1 else narray)"

definition parseDef2 :: "(16 word \<Rightarrow> 16 word list) \<Rightarrow> SymbolBody parser" where
  "parseDef2 mods =
     andThen read_u16 (\<lambda>c.
     andThen read_u16 (\<lambda>t.
     andThen read_u32 (\<lambda>sz.
     andThen (readDims (narrayOf mods t) []) (\<lambda>ds.
     andThen read_u8 (\<lambda>tagLen.
     andThen (if tagLen > 0 then ReadFull (unat tagLen) else ret []) (\<lambda>tag.
     andThen read_u8 (\<lambda>nameLen.
     andThen (if nameLen > 0 then ReadFull (unat nameLen) else ret []) (\<lambda>name.
     ret (BodyDef2 \<lparr>Def2.Class = c, Def2.Type = t, Def2.Size = sz, Dims = ds,
                    TagLen = tagLen, Tag = tag, NameLen = nameLen, Name = name\<rparr>)))))))))"

definition parseSymbolBody :: "(16 word \<Rightarrow> 16 word list) \<Rightarrow> Kind \<Rightarrow> SymbolBody parser" where
  "parseSymbolBody mods kind =
     (if kind = KindName1 then andThen Unpack_Name1 (\<lambda>body. ret (BodyName1 body))
      else if kind = KindName2 then andThen Unpack_Name2 (\<lambda>body. ret (BodyName2 body))
      else if kind = KindDef then andThen Unpack_Def (\<lambda>body. ret (BodyDef body))
      else if kind = KindDef2 then parseDef2 mods
      else if kind = KindOverlay then andThen Unpack_Overlay (\<lambda>body. ret (BodyOverlay body))
      else (\<lambda>r. (Inl (ErrKindNotImplemented kind), r)))"

text \<open>
  \<open>parseSymbol\<close> returns a pair of a \<open>*Symbol\<close> and an \<open>error\<close>, each possibly \<open>nil\<close>.
\<close>

definition parseSymbol ::
  "(16 word \<Rightarrow> 16 word list) \<Rightarrow> reader \<Rightarrow> (Symbol option \<times> error option) \<times> reader" where
  "parseSymbol mods r =
     (case parseSymbolHeader r of
        (Inl err, r1) \<Rightarrow> ((None, Some err), r1)
      | (Inr hdr, r1) \<Rightarrow>
          (case parseSymbolBody mods (Kind hdr) r1 of
             (Inl err, r2) \<Rightarrow> ((Some \<lparr>Hdr = Some hdr, Body = None\<rparr>, Some err), r2)
           | (Inr body, r2) \<Rightarrow> ((Some \<lparr>Hdr = Some hdr, Body = Some body\<rparr>, None), r2)))"


section \<open>Formatting (packages fmt and strconv)\<close>

text \<open>
  The verbs of \<open>fmt\<close> that the code uses: \<open>%d\<close> (decimal), \<open>%X\<close> (upper-case
  hexadecimal, without prefix) and the zero-padded widths \<open>%02X\<close> and \<open>%04X\<close>.
\<close>

definition digitChar :: "nat \<Rightarrow> char" where
  "digitChar d = ''0123456789ABCDEF'' ! d"

function fmtDecimal :: "nat \<Rightarrow> string" where
  "fmtDecimal n =
     (if n < 10 then [digitChar n] else fmtDecimal (n div 10) @ [digitChar (n mod 10)])"
  by pat_completeness auto
termination
  by (relation "measure id") auto

function fmtHex :: "nat \<Rightarrow> string" where
  "fmtHex n =
     (if n < 16 then [digitChar n] else fmtHex (n div 16) @ [digitChar (n mod 16)])"
  by pat_completeness auto
termination
  by (relation "measure id") auto

definition fmt_d :: "int \<Rightarrow> string" where
  "fmt_d i = (if i < 0 then ''-'' @ fmtDecimal (nat (- i)) else fmtDecimal (nat i))"

definition padZero :: "nat \<Rightarrow> string \<Rightarrow> string" where
  "padZero w s = replicate (w - length s) (CHR ''0'') @ s"

definition tab :: string where
  "tab = [CHR 0x09]"

definition nl :: string where
  "nl = [CHR 0x0A]"

text \<open>The text of an error (its \<open>Error\<close> method).\<close>

fun error_Error :: "error \<Rightarrow> string" where
  "error_Error EOF = ''EOF''"
| "error_Error ErrUnexpectedEOF = ''unexpected EOF''"
| "error_Error (ErrKindNotImplemented kind) =
     ''support for symbol kind 0x'' @ padZero 2 (fmtHex (unat kind)) @ '' not yet implemented''"

text \<open>
  \<open>strings.HasPrefix\<close> and \<open>strings.HasSuffix\<close>.
\<close>

definition HasPrefix :: "string \<Rightarrow> string \<Rightarrow> bool" where
  "HasPrefix s prefix = (length s \<ge> length prefix \<and> take (length prefix) s = prefix)"

definition HasSuffix :: "string \<Rightarrow> string \<Rightarrow> bool" where
  "HasSuffix s suffix =
     (length s \<ge> length suffix \<and> drop (length s - length suffix) s = suffix)"

text \<open>
  \<open>strconv.Atoi\<close> is \<open>ParseInt(s, 10, 0)\<close> converted to \<open>int\<close>: an optional sign
  \<open>+\<close> or \<open>-\<close>, then one or more decimal digits, whose value must fit the type
  \<open>int\<close>. The result is \<open>None\<close> when \<open>Atoi\<close> returns an error (of syntax or of
  range), which is all \<open>isFakeTag\<close> looks at. \<open>intSize\<close> is \<open>strconv.IntSize\<close>, the
  width of \<open>int\<close>, here the one of a 64-bit platform.
\<close>

definition intSize :: nat where
  "intSize = 64"

definition isDigit :: "char \<Rightarrow> bool" where
  "isDigit c = (of_char (CHR ''0'') \<le> (of_char c :: nat) \<and> (of_char c :: nat) \<le> of_char (CHR ''9''))"

definition digitsValue :: "string \<Rightarrow> int" where
  "digitsValue ds = foldl (\<lambda>n c. n * 10 + (of_char c - of_char (CHR ''0''))) 0 ds"

definition Atoi :: "string \<Rightarrow> int option" where
  "Atoi s =
     (if s = [] then None
      else
        let neg = (hd s = CHR ''-'');
            ds = (if hd s = CHR ''+'' \<or> hd s = CHR ''-'' then tl s else s)
        in if ds = [] then None
           else if \<not> list_all isDigit ds then None
           else
             let un = digitsValue ds;
                 cutoff = 2 ^ (intSize - 1)
             in if \<not> neg \<and> un \<ge> cutoff then None
                else if neg \<and> un > cutoff then None
                else Some (if neg then - un else un))"

section \<open>The C type model (package c)\<close>

datatype BaseType = Void | Char_t | Short | Int_t | Long | UChar | UShort | UInt | ULong

text \<open>
  \<open>BaseType.String\<close> is generated by \<open>stringer -linecomment\<close>: the text of a constant is
  its line comment. \<open>Char_t\<close> and \<open>Int_t\<close> are the constants \<open>Char\<close> and \<open>Int\<close>.
\<close>

fun BaseType_String :: "BaseType \<Rightarrow> string" where
  "BaseType_String Void = ''void''"
| "BaseType_String Char_t = ''char''"
| "BaseType_String Short = ''short''"
| "BaseType_String Int_t = ''int''"
| "BaseType_String Long = ''long''"
| "BaseType_String UChar = ''unsigned char''"
| "BaseType_String UShort = ''unsigned short''"
| "BaseType_String UInt = ''unsigned int''"
| "BaseType_String ULong = ''unsigned long''"

record EnumMember =
  Value :: "32 word"
  Name :: string

text \<open>
  The implementations of the interface \<open>Type\<close>, and \<open>Field\<close>. The arguments of a
  constructor are the fields of the Go struct, in its order.
\<close>

datatype Type =
  BaseT BaseType
| Typedef Type string
| PointerType Type
| StructType "32 word" string "Field list"
| UnionType "32 word" string "Field list"
| EnumType string "EnumMember list"
| ArrayType Type int
| FuncType Type "Field list" bool
and Field =
  Field (Offset: "32 word") (Size: "32 word") (Type: Type) (Name: string)

text \<open>
  \<open>isFakeTag\<close>. The slice \<open>tag[len("_") : len(tag)-len("fake")]\<close> is in range whenever
  the two tests before it hold (lemma \<open>isFakeTag_slice_in_range\<close>).
\<close>

definition isFakeTag :: "string \<Rightarrow> bool" where
  "isFakeTag tag =
     (if HasPrefix tag ''_'' \<and> HasSuffix tag ''fake''
      then (let s = drop (length ''_'') (take (length tag - length ''fake'') tag)
            in Atoi s \<noteq> None)
      else False)"

text \<open>
  The comment that \<open>StructType.Def\<close>, \<open>UnionType.Def\<close> and \<open>fakeUnionString\<close> write
  before a field; the three differ in the indentation only. \<open>fields\<close> is \<open>t.Fields\<close>.
\<close>

definition offsetComment :: "string \<Rightarrow> Field list \<Rightarrow> Field \<Rightarrow> string" where
  "offsetComment indent flds field =
     (if Field.Size field > 0 then
        indent @ ''// offset: '' @ padZero 4 (fmtHex (unat (Offset field)))
          @ '' ('' @ fmtDecimal (unat (Field.Size field)) @ '' bytes)'' @ nl
      else if length flds > 1 \<and> Offset (flds ! 1) > 0 then
        indent @ ''// offset: '' @ padZero 4 (fmtHex (unat (Offset field))) @ nl
      else [])"

definition sizeComment :: "32 word \<Rightarrow> string" where
  "sizeComment sz = (if sz > 0 then ''// size = 0x'' @ fmtHex (unat sz) @ nl else [])"

text \<open>The parameter list of a function type: the parameters separated by commas.\<close>

fun commaSep :: "string list \<Rightarrow> string" where
  "commaSep [] = []"
| "commaSep [p] = p"
| "commaSep (p # ps) = p @ '', '' @ commaSep ps"

definition paramList :: "string list \<Rightarrow> bool \<Rightarrow> string" where
  "paramList params variadic =
     commaSep params
       @ (if variadic then (if length params > 0 then '', '' else []) @ ''...'' else [])"

text \<open>
  \<open>Type.String\<close> (one equation for each implementation), \<open>Field.String\<close> and
  \<open>fakeUnionString\<close>, whose argument is given by the three fields of the union type.
\<close>

fun Type_String :: "Type \<Rightarrow> string"
  and Field_String :: "Field \<Rightarrow> string"
  and fakeUnionString :: "32 word \<Rightarrow> string \<Rightarrow> Field list \<Rightarrow> string"
where
  "Type_String (BaseT b) = BaseType_String b"
| "Type_String (Typedef t name) = name"
| "Type_String (PointerType elem) = Type_String elem @ ''*''"
| "Type_String (StructType sz tag flds) = ''struct '' @ tag"
| "Type_String (UnionType sz tag flds) = ''union '' @ tag"
| "Type_String (EnumType tag members) = ''enum '' @ tag"
| "Type_String (ArrayType elem len) = Type_String elem @ ''['' @ fmt_d len @ '']''"
| "Type_String (FuncType retType params variadic) =
     Type_String retType @ '' (*)('' @ paramList (map Field_String params) variadic @ '')''"
| "Field_String (Field off sz (PointerType elem) name) =
     Field_String (Field off sz elem (''*'' @ name))"
| "Field_String (Field off sz (ArrayType elem len) name) =
     Field_String (Field off sz elem (name @ ''['' @ fmt_d len @ '']''))"
| "Field_String (Field off sz (FuncType retType params variadic) name) =
     Field_String (Field off sz retType
       (''('' @ name @ '')('' @ paramList (map Field_String params) variadic @ '')''))"
| "Field_String (Field off sz (UnionType usz tag flds) name) =
     (if isFakeTag tag then fakeUnionString usz tag flds @ '' '' @ name
      else Type_String (UnionType usz tag flds) @ '' '' @ name)"
| "Field_String (Field off sz t name) = Type_String t @ '' '' @ name"
| "fakeUnionString usz tag flds =
     sizeComment usz @ tab @ ''union {'' @ nl
       @ concat (map (\<lambda>field. offsetComment (tab @ tab) flds field
                        @ tab @ tab @ Field_String field @ '';'' @ nl) flds)
       @ tab @ ''}''"

definition StructType_Def :: "32 word \<Rightarrow> string \<Rightarrow> Field list \<Rightarrow> string" where
  "StructType_Def sz tag flds =
     sizeComment sz
       @ (if length tag > 0 then ''struct '' @ tag @ '' {'' @ nl else ''struct {'' @ nl)
       @ concat (map (\<lambda>field. offsetComment tab flds field
                        @ tab @ Field_String field @ '';'' @ nl) flds)
       @ ''}''"

definition UnionType_Def :: "32 word \<Rightarrow> string \<Rightarrow> Field list \<Rightarrow> string" where
  "UnionType_Def sz tag flds =
     sizeComment sz
       @ (if length tag > 0 then ''union '' @ tag @ '' {'' @ nl else ''union {'' @ nl)
       @ concat (map (\<lambda>field. offsetComment tab flds field
                        @ tab @ Field_String field @ '';'' @ nl) flds)
       @ ''}''"




section \<open>The sort of the Go library (package sort)\<close>





















text \<open>
  The 16-bit values that a stream holds, two bytes each; a last single byte holds none.
  \<open>dimsBytes\<close> is the number of bytes that a list of dimension groups takes.
\<close>

fun u16s :: "byte list \<Rightarrow> 16 word list" where
  "u16s (b0 # b1 # r) = le_uint [b0, b1] # u16s r"
| "u16s r = []"

definition dimsBytes :: "Dimensions list \<Rightarrow> nat" where
  "dimsBytes ds = sum_list (map (\<lambda>dims. 2 * length dims) ds)"

section \<open>Properties of the decoder\<close>

subsection \<open>What a successful read consumes\<close>

lemma ReadFull_Inr:
  "ReadFull n r = (Inr bs, r') \<Longrightarrow> r = bs @ r' \<and> length bs = n"
  by (auto simp: ReadFull_def split: if_splits)

lemma ReadFull_len: "ReadFull n r = (Inr bs, r') \<Longrightarrow> length r = n + length r'"
  by (auto dest!: ReadFull_Inr)

lemma andThen_Inr:
  "andThen p f r = (Inr v, r') \<Longrightarrow> \<exists>x r1. p r = (Inr x, r1) \<and> f x r1 = (Inr v, r')"
  by (auto simp: andThen_def split: prod.splits sum.splits)

lemma ret_Inr: "ret x r = (Inr v, r') \<Longrightarrow> v = x \<and> r' = r"
  by (simp add: ret_def)

lemma read_u8_Inr: "read_u8 r = (Inr v, r') \<Longrightarrow> length r = 1 + length r'"
  unfolding read_u8_def by (auto dest!: andThen_Inr ReadFull_Inr ret_Inr)

lemma read_u16_Inr: "read_u16 r = (Inr v, r') \<Longrightarrow> length r = 2 + length r'"
  unfolding read_u16_def by (auto dest!: andThen_Inr ReadFull_Inr ret_Inr)

lemma read_u32_Inr: "read_u32 r = (Inr v, r') \<Longrightarrow> length r = 4 + length r'"
  unfolding read_u32_def by (auto dest!: andThen_Inr ReadFull_Inr ret_Inr)

lemma opt_ReadFull_len:
  "(if n > 0 then ReadFull (unat n) else ret []) r = (Inr bs, r')
     \<Longrightarrow> length r = unat n + length r'"
  by (auto dest!: ReadFull_Inr ret_Inr split: if_splits
      simp: unat_eq_zero word_greater_zero_iff)

lemma parseSymbolHeader_Inr:
  "parseSymbolHeader r = (Inr hdr, r') \<Longrightarrow> length r = hdrSize + length r'"
  unfolding parseSymbolHeader_def hdrSize_def
  by (auto dest!: andThen_Inr read_u32_Inr read_u8_Inr ret_Inr)

lemma Unpack_Name1_Inr:
  "Unpack_Name1 r = (Inr body, r') \<Longrightarrow> length r = Name1_BodySize body + length r'"
  unfolding Unpack_Name1_def Name1_BodySize_def
  by (auto dest!: andThen_Inr read_u8_Inr ReadFull_len ret_Inr)

lemma Unpack_Name2_Inr:
  "Unpack_Name2 r = (Inr body, r') \<Longrightarrow> length r = Name2_BodySize body + length r'"
  unfolding Unpack_Name2_def Name2_BodySize_def
  by (auto dest!: andThen_Inr read_u8_Inr ReadFull_len ret_Inr)

lemma Unpack_Def_Inr:
  "Unpack_Def r = (Inr body, r') \<Longrightarrow> length r = Def_BodySize body + length r'"
  unfolding Unpack_Def_def Def_BodySize_def
  by (auto dest!: andThen_Inr read_u8_Inr read_u16_Inr read_u32_Inr ReadFull_len ret_Inr)

lemma Unpack_Overlay_Inr:
  "Unpack_Overlay r = (Inr body, r') \<Longrightarrow> length r = Overlay_BodySize body + length r'"
  unfolding Unpack_Overlay_def Overlay_BodySize_def
  by (auto dest!: andThen_Inr read_u32_Inr ret_Inr)

lemma Dimensions_Unpack_Inr:
  "Dimensions_Unpack acc r = (Inr dims, r') \<Longrightarrow>
     length r + 2 * length acc = 2 * length dims + length r'"
  by (induction acc r rule: Dimensions_Unpack.induct) (auto simp: Let_def split: if_splits)

lemma foldl_dimsLen:
  "foldl (\<lambda>dimsLen dims. dimsLen + 2 * length dims) k ds = k + dimsBytes ds"
  by (induction ds arbitrary: k) (auto simp: dimsBytes_def)

lemma readDims_Inr:
  "readDims n acc r = (Inr ds, r') \<Longrightarrow>
     length r + dimsBytes acc = dimsBytes ds + length r' \<and> length ds = length acc + n"
proof (induction n acc r rule: readDims.induct)
  case (1 acc r)
  then show ?case by simp
next
  case (2 n acc r)
  from "2.prems" obtain dims r1 where
    u: "Dimensions_Unpack [] r = (Inr dims, r1)" and
    rest: "readDims n (acc @ [dims]) r1 = (Inr ds, r')"
    by (auto split: prod.splits sum.splits)
  from "2.IH" [OF u [symmetric] refl rest]
  have "length r1 + dimsBytes (acc @ [dims]) = dimsBytes ds + length r'"
    and "length ds = length (acc @ [dims]) + n" by auto
  moreover from Dimensions_Unpack_Inr [OF u]
  have "length r = 2 * length dims + length r1" by simp
  ultimately show ?case by (simp add: dimsBytes_def)
qed

lemma parseDef2_Inr:
  assumes "parseDef2 mods r = (Inr body, r')"
  shows "\<exists>d. body = BodyDef2 d \<and> length r = Def2_BodySize d + length r'
            \<and> length (Def2.Dims d) = narrayOf mods (Def2.Type d)"
proof -
  from assms obtain c r1 t r2 sz r3 ds r4 tagLen r5 tag r6 nameLen r7 name where
    1: "read_u16 r = (Inr c, r1)" and 2: "read_u16 r1 = (Inr t, r2)" and
    3: "read_u32 r2 = (Inr sz, r3)" and
    4: "readDims (narrayOf mods t) [] r3 = (Inr ds, r4)" and
    5: "read_u8 r4 = (Inr tagLen, r5)" and
    6: "(if tagLen > 0 then ReadFull (unat tagLen) else ret []) r5 = (Inr tag, r6)" and
    7: "read_u8 r6 = (Inr nameLen, r7)" and
    8: "(if nameLen > 0 then ReadFull (unat nameLen) else ret []) r7 = (Inr name, r')" and
    b: "body = BodyDef2 \<lparr>Def2.Class = c, Def2.Type = t, Def2.Size = sz, Dims = ds,
                    TagLen = tagLen, Tag = tag, NameLen = nameLen, Name = name\<rparr>"
    unfolding parseDef2_def
    by (fastforce dest!: andThen_Inr ret_Inr)
  from readDims_Inr [OF 4]
  have d: "length r3 = dimsBytes ds + length r4" "length ds = narrayOf mods t"
    by (simp_all add: dimsBytes_def)
  show ?thesis
    using read_u16_Inr [OF 1] read_u16_Inr [OF 2] read_u32_Inr [OF 3] d read_u8_Inr [OF 5]
      opt_ReadFull_len [OF 6] read_u8_Inr [OF 7] opt_ReadFull_len [OF 8] b
    by (simp add: Def2_BodySize_def foldl_dimsLen)
qed

lemma parseSymbolBody_Inr:
  assumes "parseSymbolBody mods kind r = (Inr body, r')"
  shows "length r = BodySize body + length r'"
  using assms unfolding parseSymbolBody_def
  by (auto split: if_splits dest!: andThen_Inr ret_Inr Unpack_Name1_Inr Unpack_Name2_Inr
      Unpack_Def_Inr Unpack_Overlay_Inr parseDef2_Inr)

text \<open>
  Claim C1. When \<open>parseSymbol\<close> succeeds (it returns a symbol and no error), whatever the
  kind of the record (\<open>Name1\<close>, \<open>Name2\<close>, \<open>Def\<close>, \<open>Def2\<close> or \<open>Overlay\<close>), the
  number of bytes it has taken from the stream is the value of \<open>Symbol.Size\<close> on the
  symbol returned: the 5 bytes of the header plus \<open>BodySize\<close>.
\<close>

theorem parseSymbol_consumes_Size:
  assumes "parseSymbol mods r = ((Some s, None), r')"
  shows "Symbol_Size s = Some (length r - length r') \<and> length r' \<le> length r"
proof -
  from assms obtain hdr r1 body where
    h: "parseSymbolHeader r = (Inr hdr, r1)" and
    b: "parseSymbolBody mods (Kind hdr) r1 = (Inr body, r')" and
    s: "s = \<lparr>Hdr = Some hdr, Body = Some body\<rparr>"
    unfolding parseSymbol_def by (auto split: prod.splits sum.splits)
  from parseSymbolHeader_Inr [OF h] parseSymbolBody_Inr [OF b]
  have "length r = hdrSize + BodySize body + length r'" by simp
  then show ?thesis by (simp add: s Symbol_Size_def)
qed

theorem parseSymbol_consumes_Size_witness:
  "parseSymbol (\<lambda>t. [])
     [0, 0, 0, 0, 0x96, 8, 0, 0x34, 0, 4, 0, 0, 0, 1, 0, 0, 0, 0, 1, 0x41, 9] =
     ((Some \<lparr>Hdr = Some \<lparr>SymbolHeader.Value = 0, Kind = 0x96\<rparr>,
             Body = Some (BodyDef2 \<lparr>Def2.Class = 8, Def2.Type = 0x34, Def2.Size = 4,
               Dims = [[1, 0]], TagLen = 0, Tag = [], NameLen = 1, Name = [0x41]\<rparr>)\<rparr>,
       None), [9]) \<and>
   Symbol_Size \<lparr>Hdr = Some \<lparr>SymbolHeader.Value = 0, Kind = 0x96\<rparr>,
             Body = Some (BodyDef2 \<lparr>Def2.Class = 8, Def2.Type = 0x34, Def2.Size = 4,
               Dims = [[1, 0]], TagLen = 0, Tag = [], NameLen = 1, Name = [0x41]\<rparr>)\<rparr>
     = Some 20"
proof -
  have e: "parseSymbol (\<lambda>t. [])
     [0, 0, 0, 0, 0x96, 8, 0, 0x34, 0, 4, 0, 0, 0, 1, 0, 0, 0, 0, 1, 0x41, 9] =
     ((Some \<lparr>Hdr = Some \<lparr>SymbolHeader.Value = 0, Kind = 0x96\<rparr>,
             Body = Some (BodyDef2 \<lparr>Def2.Class = 8, Def2.Type = 0x34, Def2.Size = 4,
               Dims = [[1, 0]], TagLen = 0, Tag = [], NameLen = 1, Name = [0x41]\<rparr>)\<rparr>,
       None), [9])"
    by code_simp
  from parseSymbol_consumes_Size [OF e] show ?thesis
    using e by simp
qed

text \<open>
  Claim C2. When \<open>parseDef2\<close> succeeds, its result is a \<open>Def2\<close> body whose \<open>Dims\<close>
  holds as many dimension groups as the modifiers of the decoded \<open>Type\<close> have array
  modifiers (\<open>0x3\<close>), and one group when they have none.
\<close>

theorem parseDef2_Dims_count:
  assumes "parseDef2 mods r = (Inr body, r')"
  shows "\<exists>d. body = BodyDef2 d \<and>
           length (Def2.Dims d) = max 1 (length (filter (\<lambda>m. m = 0x3) (mods (Def2.Type d))))"
proof -
  from parseDef2_Inr [OF assms] obtain d where
    "body = BodyDef2 d" and "length (Def2.Dims d) = narrayOf mods (Def2.Type d)"
    by blast
  moreover have "narrayOf mods t = max 1 (length (filter (\<lambda>m. m = 0x3) (mods t)))" for t
    by (cases "filter (\<lambda>m. m = 0x3) (mods t)") (simp_all add: narrayOf_def Let_def)
  ultimately show ?thesis
    by simp
qed

theorem parseDef2_Dims_count_witness:
  "parseDef2 (\<lambda>t. [0x3, 0x1, 0x3])
     [8, 0, 0x34, 0x0F, 18, 0, 0, 0, 2, 0, 0, 0, 3, 0, 3, 0, 0, 0, 0, 1, 0x6D] =
     (Inr (BodyDef2 \<lparr>Def2.Class = 8, Def2.Type = 0x0F34, Def2.Size = 18,
        Dims = [[2, 0], [3, 3, 0]], TagLen = 0, Tag = [], NameLen = 1, Name = [0x6D]\<rparr>), []) \<and>
   length [[2, 0], [3, 3, 0 :: 16 word]] = max 1 (length (filter (\<lambda>m. m = 0x3) [0x3, 0x1, 0x3 :: 16 word]))"
proof -
  have e: "parseDef2 (\<lambda>t. [0x3, 0x1, 0x3])
     [8, 0, 0x34, 0x0F, 18, 0, 0, 0, 2, 0, 0, 0, 3, 0, 3, 0, 0, 0, 0, 1, 0x6D] =
     (Inr (BodyDef2 \<lparr>Def2.Class = 8, Def2.Type = 0x0F34, Def2.Size = 18,
        Dims = [[2, 0], [3, 3, 0]], TagLen = 0, Tag = [], NameLen = 1, Name = [0x6D]\<rparr>), [])"
    by code_simp
  from parseDef2_Dims_count [OF e] show ?thesis
    using e by simp
qed

lemma Dimensions_Unpack_acc:
  "Dimensions_Unpack acc r =
     (if 0 \<in> set (u16s r)
      then (Inr (acc @ takeWhile (\<lambda>dim. dim \<noteq> 0) (u16s r) @ [0]),
            drop (2 * Suc (length (takeWhile (\<lambda>dim. dim \<noteq> 0) (u16s r)))) r)
      else (Inl ErrUnexpectedEOF, []))"
  by (induction acc r rule: Dimensions_Unpack.induct) (simp_all add: Let_def)

text \<open>
  Claim C3, amended. \<open>Dimensions.Unpack\<close> reads 16-bit values up to and
  including the first zero. It returns the values before that zero followed by the zero
  itself: the terminator is the last element of the sequence returned, and no other
  element is zero. The bytes after the terminator stay in the stream. When the stream
  holds no zero value, decoding fails with \<open>io.ErrUnexpectedEOF\<close>, never with
  \<open>io.EOF\<close>.
\<close>

theorem Dimensions_Unpack_stops_at_zero:
  "Dimensions_Unpack [] r =
     (if 0 \<in> set (u16s r)
      then (Inr (takeWhile (\<lambda>dim. dim \<noteq> 0) (u16s r) @ [0]),
            drop (2 * Suc (length (takeWhile (\<lambda>dim. dim \<noteq> 0) (u16s r)))) r)
      else (Inl ErrUnexpectedEOF, []))"
  using Dimensions_Unpack_acc [of "[]" r] by simp

theorem Dimensions_Unpack_stops_at_zero_witness:
  "Dimensions_Unpack [] [2, 0, 3, 0, 0, 0, 7, 0] = (Inr [2, 3, 0], [7, 0]) \<and>
   Dimensions_Unpack [] [2, 0, 3, 0, 7] = (Inl ErrUnexpectedEOF, [])"
  using Dimensions_Unpack_stops_at_zero [of "[2, 0, 3, 0, 0, 0, 7, 0]"]
    Dimensions_Unpack_stops_at_zero [of "[2, 0, 3, 0, 7]"]
  by simp

text \<open>
  Claim C3 as stated fails: on the bytes of the lengths 3 and 0 the sequence returned is
  \<open>[3, 0]\<close>, with the terminator in it.
\<close>

theorem Dimensions_Unpack_keeps_terminator:
  "Dimensions_Unpack [] [3, 0, 0, 0] = (Inr [3, 0], [])"
  by simp

text \<open>
  Claim C8. For a kind other than the five implemented ones, \<open>parseSymbolBody\<close> returns
  the error whose text names the kind in hexadecimal, and the stream is as it was: no
  byte of the body is consumed.
\<close>

theorem parseSymbolBody_unknown_kind:
  assumes "kind \<notin> {0x01, 0x02, 0x94, 0x96, 0x98}"
  shows "parseSymbolBody mods kind r = (Inl (ErrKindNotImplemented kind), r) \<and>
         error_Error (ErrKindNotImplemented kind) =
           ''support for symbol kind 0x'' @ padZero 2 (fmtHex (unat kind))
             @ '' not yet implemented''"
  using assms
  by (simp add: parseSymbolBody_def KindName1_def KindName2_def KindDef_def KindDef2_def
      KindOverlay_def)

theorem parseSymbolBody_unknown_kind_witness:
  "(0xFF :: byte) \<notin> {0x01, 0x02, 0x94, 0x96, 0x98} \<and>
   parseSymbolBody (\<lambda>t. []) 0xFF [8, 0, 1] = (Inl (ErrKindNotImplemented 0xFF), [8, 0, 1]) \<and>
   error_Error (ErrKindNotImplemented 0xFF) =
     ''support for symbol kind 0xFF not yet implemented''"
proof -
  have k: "(0xFF :: byte) \<notin> {0x01, 0x02, 0x94, 0x96, 0x98}" by simp
  have h: "padZero 2 (fmtHex (unat (0xFF :: byte))) = ''FF''" by code_simp
  show ?thesis
    using k parseSymbolBody_unknown_kind [OF k, of "\<lambda>t. []" "[8, 0, 1]"] h by simp
qed

lemma parseSymbolHeader_long:
  "5 \<le> length r \<Longrightarrow>
     parseSymbolHeader r =
       (Inr \<lparr>SymbolHeader.Value = le_uint (take 4 r), Kind = r ! 4\<rparr>, drop 5 r)"
  by (simp add: parseSymbolHeader_def read_u32_def read_u8_def andThen_def ret_def
      ReadFull_def take_Suc_conv_app_nth hd_drop_conv_nth take_Suc)

lemma parseSymbolHeader_short:
  "length r < 5 \<Longrightarrow>
     parseSymbolHeader r =
       (Inl (if r = [] \<or> length r = 4 then EOF else ErrUnexpectedEOF), [])"
  by (auto simp add: parseSymbolHeader_def read_u32_def read_u8_def andThen_def ret_def
      ReadFull_def)

text \<open>
  Claim C10. When the header cannot be parsed, \<open>parseSymbol\<close> returns a \<open>nil\<close> symbol
  and the very error of \<open>parseSymbolHeader\<close>. That is the case of a stream shorter than
  the 5 bytes of a header: the error is \<open>io.EOF\<close> when the stream is empty (or ends right
  after the four bytes of the value) and \<open>io.ErrUnexpectedEOF\<close> otherwise. When the header
  is read (its value from the first four bytes, its kind from the fifth) and parsing the
  body fails, \<open>parseSymbol\<close> returns the symbol with that header and a \<open>nil\<close> body,
  together with the error of the body.
\<close>

theorem parseSymbol_partial:
  "(\<forall>err r1. parseSymbolHeader r = (Inl err, r1) \<longrightarrow>
      parseSymbol mods r = ((None, Some err), r1)) \<and>
   (length r < 5 \<longrightarrow>
      parseSymbol mods r =
        ((None, Some (if r = [] \<or> length r = 4 then EOF else ErrUnexpectedEOF)), [])) \<and>
   (5 \<le> length r \<longrightarrow>
      (\<forall>err r2. parseSymbolBody mods (r ! 4) (drop 5 r) = (Inl err, r2) \<longrightarrow>
         parseSymbol mods r =
           ((Some \<lparr>Hdr = Some \<lparr>SymbolHeader.Value = le_uint (take 4 r), Kind = r ! 4\<rparr>,
                   Body = None\<rparr>,
             Some err), r2)))"
proof (intro conjI impI allI)
  fix err r1
  assume "parseSymbolHeader r = (Inl err, r1)"
  then show "parseSymbol mods r = ((None, Some err), r1)"
    by (simp add: parseSymbol_def)
next
  assume "length r < 5"
  from parseSymbolHeader_short [OF this]
  show "parseSymbol mods r =
        ((None, Some (if r = [] \<or> length r = 4 then EOF else ErrUnexpectedEOF)), [])"
    by (simp add: parseSymbol_def)
next
  fix err r2
  assume "5 \<le> length r" and "parseSymbolBody mods (r ! 4) (drop 5 r) = (Inl err, r2)"
  then show "parseSymbol mods r =
           ((Some \<lparr>Hdr = Some \<lparr>SymbolHeader.Value = le_uint (take 4 r), Kind = r ! 4\<rparr>,
                   Body = None\<rparr>,
             Some err), r2)"
    by (simp add: parseSymbol_def parseSymbolHeader_long)
qed

theorem parseSymbol_partial_witness:
  "parseSymbol (\<lambda>t. []) [] = ((None, Some EOF), []) \<and>
   parseSymbol (\<lambda>t. []) [1, 2] = ((None, Some ErrUnexpectedEOF), []) \<and>
   parseSymbol (\<lambda>t. []) [0x10, 0, 0, 0x80, 0x94, 8, 0, 7] =
     ((Some \<lparr>Hdr = Some \<lparr>SymbolHeader.Value = 0x80000010, Kind = 0x94\<rparr>, Body = None\<rparr>,
       Some ErrUnexpectedEOF), [])"
proof -
  have b: "parseSymbolBody (\<lambda>t. []) ([0x10, 0, 0, 0x80, 0x94, 8, 0, 7] ! 4)
             (drop 5 [0x10, 0, 0, 0x80, 0x94, 8, 0, 7]) = (Inl ErrUnexpectedEOF, [])"
    by code_simp
  have v: "(le_uint (take 4 [0x10, 0, 0, 0x80, 0x94, 8, 0, 7 :: byte]) :: 32 word) = 0x80000010"
    by code_simp
  have h: "parseSymbolHeader [] = (Inl EOF, [])"
    by code_simp
  have 0: "parseSymbol (\<lambda>t. []) [] = ((None, Some EOF), [])"
    using parseSymbol_partial [of "[]" "\<lambda>t. []"] h by simp
  have 1: "parseSymbol (\<lambda>t. []) [1, 2] = ((None, Some ErrUnexpectedEOF), [])"
    using parseSymbol_partial [of "[1, 2]" "\<lambda>t. []"] by simp
  have 2: "parseSymbol (\<lambda>t. []) [0x10, 0, 0, 0x80, 0x94, 8, 0, 7] =
     ((Some \<lparr>Hdr = Some \<lparr>SymbolHeader.Value = 0x80000010, Kind = 0x94\<rparr>, Body = None\<rparr>,
       Some ErrUnexpectedEOF), [])"
    using parseSymbol_partial [of "[0x10, 0, 0, 0x80, 0x94, 8, 0, 7]" "\<lambda>t. []"] b v by simp
  show ?thesis using 0 1 2 by simp
qed

section \<open>Properties of the declarator synthesis\<close>

text \<open>
  Claim C6. The three declarations of the specification: a pointer to \<open>int\<close> named
  \<open>p\<close>, an array of 4 \<open>short\<close> named \<open>arr\<close>, and a pointer to a function without
  parameters, not variadic, returning \<open>int\<close>, named \<open>fn\<close>.
\<close>

theorem Field_String_spiral_examples:
  "Field_String (Field 0 0 (PointerType (BaseT Int_t)) ''p'') = ''int *p'' \<and>
   Field_String (Field 0 0 (ArrayType (BaseT Short) 4) ''arr'') = ''short arr[4]'' \<and>
   Field_String (Field 0 0 (PointerType (FuncType (BaseT Int_t) [] False)) ''fn'') = ''int (*fn)()''"
  by (simp add: paramList_def fmt_d_def digitChar_def)

subsection \<open>Fake tags\<close>

lemma Field_String_struct:
  "Field_String (Field off sz (StructType ssz tag flds) name) = ''struct '' @ tag @ '' '' @ name"
  by simp

lemma Field_String_union:
  "Field_String (Field off sz (UnionType usz tag flds) name) =
     (if isFakeTag tag then fakeUnionString usz tag flds @ '' '' @ name
      else ''union '' @ tag @ '' '' @ name)"
  by simp

text \<open>
  Claim C4. A field whose type is a union with a fake tag is rendered with the body of
  the union, indented one level more than \<open>UnionType.Def\<close> indents it. \<open>Field.String\<close>
  has no case for \<open>*StructType\<close>: a structure goes to the \<open>default\<close> case and is
  referenced by its tag, fake or not. Here the tag \<open>_0fake\<close> is fake, the structure field
  is rendered \<open>struct _0fake s\<close>, and the union field with the same tag and members is
  rendered with its body.
\<close>

theorem Field_String_fake_struct_by_name:
  "isFakeTag ''_0fake'' \<and>
   Field_String (Field 0 0 (StructType 0 ''_0fake'' [Field 0 4 (BaseT Int_t) ''x'']) ''s'')
     = ''struct _0fake s'' \<and>
   Field_String (Field 0 0 (UnionType 0 ''_0fake'' [Field 0 4 (BaseT Int_t) ''x'']) ''u'')
     = tab @ ''union {'' @ nl
         @ tab @ tab @ ''// offset: 0000 (4 bytes)'' @ nl
         @ tab @ tab @ ''int x;'' @ nl
         @ tab @ ''} u''"
  by code_simp

lemma isFakeTag_slice_in_range:
  assumes "HasPrefix tag ''_''" and "HasSuffix tag ''fake''"
  shows "length ''_'' \<le> length tag - length ''fake''"
proof (rule ccontr)
  assume "\<not> ?thesis"
  with assms have l: "length tag = 4" by (simp add: HasSuffix_def)
  with assms(2) have "tag = ''fake''" by (simp add: HasSuffix_def)
  with assms(1) show False by (simp add: HasPrefix_def)
qed

lemma prefix_suffix_iff:
  "HasPrefix tag ''_'' \<and> HasSuffix tag ''fake'' \<longleftrightarrow> (\<exists>s. tag = ''_'' @ s @ ''fake'')"
proof
  assume a: "HasPrefix tag ''_'' \<and> HasSuffix tag ''fake''"
  then have len: "1 \<le> length tag - 4" using isFakeTag_slice_in_range [of tag] by simp
  from a have p: "take 1 tag = ''_''" and q: "drop (length tag - 4) tag = ''fake''"
    by (simp_all add: HasPrefix_def HasSuffix_def eval_nat_numeral)
  define u where "u = take (length tag - 4) tag"
  have t: "tag = u @ ''fake''"
    using q append_take_drop_id [of "length tag - 4" tag] by (simp add: u_def)
  have "u \<noteq> []" using len by (auto simp: u_def)
  then obtain c s where u: "u = c # s" by (cases u) auto
  with t p have "c = CHR ''_''" by simp
  with t u have "tag = ''_'' @ s @ ''fake''" by simp
  then show "\<exists>s. tag = ''_'' @ s @ ''fake''" ..
next
  assume "\<exists>s. tag = ''_'' @ s @ ''fake''"
  then show "HasPrefix tag ''_'' \<and> HasSuffix tag ''fake''"
    by (auto simp: HasPrefix_def HasSuffix_def)
qed

lemma isFakeTag_decomposed:
  "isFakeTag (''_'' @ s @ ''fake'') = (Atoi s \<noteq> None)"
proof -
  have "HasPrefix (''_'' @ s @ ''fake'') ''_'' \<and> HasSuffix (''_'' @ s @ ''fake'') ''fake''"
    using prefix_suffix_iff by blast
  then show ?thesis by (simp add: isFakeTag_def)
qed

lemma isDigit_not_sign: "isDigit c \<Longrightarrow> c \<noteq> CHR ''+'' \<and> c \<noteq> CHR ''-''"
  by (auto simp: isDigit_def)

lemma Atoi_iff:
  "Atoi s \<noteq> None \<longleftrightarrow>
     (\<exists>sgn ds. s = sgn @ ds \<and> sgn \<in> {[], ''+'', ''-''} \<and> ds \<noteq> [] \<and> list_all isDigit ds \<and>
        (if sgn = ''-'' then digitsValue ds \<le> 2 ^ 63 else digitsValue ds < 2 ^ 63))"
  (is "?l \<longleftrightarrow> ?r")
proof
  assume l: ?l
  then have ne: "s \<noteq> []" by (auto simp: Atoi_def)
  define sgn where "sgn = (if hd s = CHR ''+'' \<or> hd s = CHR ''-'' then [hd s] else [])"
  define ds where "ds = (if hd s = CHR ''+'' \<or> hd s = CHR ''-'' then tl s else s)"
  have s: "s = sgn @ ds" using ne by (simp add: sgn_def ds_def)
  have sg: "sgn \<in> {[], ''+'', ''-''}" by (auto simp: sgn_def)
  from l ne have d: "ds \<noteq> []" "list_all isDigit ds"
    by (auto simp: Atoi_def Let_def ds_def split: if_splits)
  from l ne have "if hd s = CHR ''-'' then digitsValue ds \<le> 2 ^ 63 else digitsValue ds < 2 ^ 63"
    by (auto simp: Atoi_def Let_def ds_def intSize_def split: if_splits)
  moreover have "hd s = CHR ''-'' \<longleftrightarrow> sgn = ''-''" by (auto simp: sgn_def)
  ultimately have "if sgn = ''-'' then digitsValue ds \<le> 2 ^ 63 else digitsValue ds < 2 ^ 63"
    by simp
  with s sg d show ?r by blast
next
  assume ?r
  then obtain sgn ds where s: "s = sgn @ ds" and sg: "sgn \<in> {[], ''+'', ''-''}"
    and d: "ds \<noteq> []" "list_all isDigit ds"
    and v: "if sgn = ''-'' then digitsValue ds \<le> 2 ^ 63 else digitsValue ds < 2 ^ 63"
    by blast
  from d have h: "hd ds \<noteq> CHR ''+''" "hd ds \<noteq> CHR ''-''"
    using isDigit_not_sign [of "hd ds"] by (cases ds; simp)+
  from sg consider "sgn = []" | "sgn = ''+''" | "sgn = ''-''" by auto
  then show ?l
  proof cases
    case 1
    with s d h v show ?thesis by (simp add: Atoi_def Let_def intSize_def)
  next
    case 2
    with s d v show ?thesis by (simp add: Atoi_def Let_def intSize_def)
  next
    case 3
    with s d v show ?thesis by (simp add: Atoi_def Let_def intSize_def)
  qed
qed

text \<open>
  Claim C5, amended. \<open>isFakeTag\<close> holds exactly of the tags made of \<open>_\<close>, a decimal
  integer as \<open>strconv.Atoi\<close> accepts it, and \<open>fake\<close>: an optional sign \<open>+\<close> or
  \<open>-\<close>, then at least one digit, the value within the range of \<open>int\<close> (from
  \<open>-2^63\<close> to \<open>2^63 - 1\<close>). The five tags of the specification are classified as it
  says.
\<close>

theorem isFakeTag_iff:
  "(isFakeTag tag \<longleftrightarrow>
     (\<exists>sgn ds. tag = ''_'' @ sgn @ ds @ ''fake'' \<and> sgn \<in> {[], ''+'', ''-''} \<and>
        ds \<noteq> [] \<and> list_all isDigit ds \<and>
        (if sgn = ''-'' then digitsValue ds \<le> 2 ^ 63 else digitsValue ds < 2 ^ 63))) \<and>
   isFakeTag ''_0fake'' \<and> isFakeTag ''_12fake'' \<and> \<not> isFakeTag ''foofake'' \<and>
   \<not> isFakeTag ''_xfake'' \<and> \<not> isFakeTag ''''"
proof -
  have 1: "isFakeTag tag \<longleftrightarrow>
     (\<exists>sgn ds. tag = ''_'' @ sgn @ ds @ ''fake'' \<and> sgn \<in> {[], ''+'', ''-''} \<and>
        ds \<noteq> [] \<and> list_all isDigit ds \<and>
        (if sgn = ''-'' then digitsValue ds \<le> 2 ^ 63 else digitsValue ds < 2 ^ 63))"
    (is "?l \<longleftrightarrow> ?r")
  proof
    assume l: ?l
    then have "HasPrefix tag ''_'' \<and> HasSuffix tag ''fake''"
      by (auto simp: isFakeTag_def split: if_splits)
    then obtain s where t: "tag = ''_'' @ s @ ''fake''" using prefix_suffix_iff by blast
    with l have "Atoi s \<noteq> None" using isFakeTag_decomposed by simp
    then show ?r unfolding Atoi_iff using t by auto
  next
    assume ?r
    then obtain sgn ds where t: "tag = ''_'' @ (sgn @ ds) @ ''fake''" and
      r: "sgn \<in> {[], ''+'', ''-''}" "ds \<noteq> []" "list_all isDigit ds"
        "if sgn = ''-'' then digitsValue ds \<le> 2 ^ 63 else digitsValue ds < 2 ^ 63"
      by auto
    from r have "Atoi (sgn @ ds) \<noteq> None" unfolding Atoi_iff by blast
    then show ?l unfolding t isFakeTag_decomposed .
  qed
  have 2: "isFakeTag ''_0fake''" "isFakeTag ''_12fake''" "\<not> isFakeTag ''foofake''"
    "\<not> isFakeTag ''_xfake''" "\<not> isFakeTag ''''"
    by code_simp+
  from 1 2 show ?thesis by blast
qed

theorem isFakeTag_iff_witness:
  "isFakeTag ''_+7fake'' \<and> \<not> isFakeTag ''_7_fake''"
proof -
  have a: "isFakeTag ''_+7fake''" by code_simp
  have b: "\<not> isFakeTag ''_7_fake''" by code_simp
  from isFakeTag_iff [of "''_+7fake''"] a b show ?thesis by simp
qed

text \<open>
  Claim C5 as stated fails: the tag \<open>_-1fake\<close> is accepted, and the text between
  \<open>_\<close> and \<open>fake\<close> is the negative integer \<open>-1\<close>.
\<close>

theorem isFakeTag_accepts_negative:
  "isFakeTag ''_-1fake'' \<and> Atoi ''-1'' = Some (- 1)"
  by code_simp

section \<open>Properties of the definitions of types\<close>

lemma tab_not_Nil: "tab \<noteq> []"
  by (simp add: tab_def)

text \<open>
  Claim C9. The definition of a structure or of a union starts with the optional size
  comment and the opening line, followed by the text for the first field: its comment, if
  any, and its declaration. The comment of the first field is there exactly when the size
  of the field is not zero, or there are at least two fields and the offset of the second
  is not zero. Every field with a nonzero size has the comment with the offset and the
  size in bytes; the first field without a size has, in the second case, the comment with
  the offset alone.
\<close>

theorem first_field_offset_comment:
  "StructType_Def sz tag (f # rest) =
     sizeComment sz
       @ (if length tag > 0 then ''struct '' @ tag @ '' {'' @ nl else ''struct {'' @ nl)
       @ offsetComment tab (f # rest) f @ tab @ Field_String f @ '';'' @ nl
       @ concat (map (\<lambda>field. offsetComment tab (f # rest) field
                        @ tab @ Field_String field @ '';'' @ nl) rest)
       @ ''}'' \<and>
   UnionType_Def sz tag (f # rest) =
     sizeComment sz
       @ (if length tag > 0 then ''union '' @ tag @ '' {'' @ nl else ''union {'' @ nl)
       @ offsetComment tab (f # rest) f @ tab @ Field_String f @ '';'' @ nl
       @ concat (map (\<lambda>field. offsetComment tab (f # rest) field
                        @ tab @ Field_String field @ '';'' @ nl) rest)
       @ ''}'' \<and>
   (offsetComment tab (f # rest) f \<noteq> [] \<longleftrightarrow>
      Field.Size f \<noteq> 0 \<or> (2 \<le> length (f # rest) \<and> Offset ((f # rest) ! 1) \<noteq> 0)) \<and>
   (\<forall>field \<in> set (f # rest). Field.Size field \<noteq> 0 \<longrightarrow>
      offsetComment tab (f # rest) field =
        tab @ ''// offset: '' @ padZero 4 (fmtHex (unat (Offset field)))
          @ '' ('' @ fmtDecimal (unat (Field.Size field)) @ '' bytes)'' @ nl) \<and>
   (Field.Size f = 0 \<and> 2 \<le> length (f # rest) \<and> Offset ((f # rest) ! 1) \<noteq> 0 \<longrightarrow>
      offsetComment tab (f # rest) f =
        tab @ ''// offset: '' @ padZero 4 (fmtHex (unat (Offset f))) @ nl)"
  by (auto simp: StructType_Def_def UnionType_Def_def offsetComment_def tab_def
      word_greater_zero_iff Suc_le_eq)

theorem first_field_offset_comment_witness:
  "StructType_Def 0 ''S'' [Field 0 0 (BaseT Int_t) ''x'', Field 4 0 (BaseT Long) ''y''] =
     ''struct S {'' @ nl
       @ tab @ ''// offset: 0000'' @ nl @ tab @ ''int x;'' @ nl
       @ tab @ ''// offset: 0004'' @ nl @ tab @ ''long y;'' @ nl @ ''}'' \<and>
   UnionType_Def 0 ''U'' [Field 0 0 (BaseT Int_t) ''x'', Field 0 2 (BaseT Short) ''y''] =
     ''union U {'' @ nl
       @ tab @ ''int x;'' @ nl
       @ tab @ ''// offset: 0000 (2 bytes)'' @ nl @ tab @ ''short y;'' @ nl @ ''}''"
proof -
  have c: "offsetComment tab [Field 0 0 (BaseT Int_t) ''x'', Field 4 0 (BaseT Long) ''y'']
             (Field 0 0 (BaseT Int_t) ''x'') = tab @ ''// offset: 0000'' @ nl"
    "offsetComment tab [Field 0 0 (BaseT Int_t) ''x'', Field 4 0 (BaseT Long) ''y'']
             (Field 4 0 (BaseT Long) ''y'') = tab @ ''// offset: 0004'' @ nl"
    "offsetComment tab [Field 0 0 (BaseT Int_t) ''x'', Field 0 2 (BaseT Short) ''y'']
             (Field 0 0 (BaseT Int_t) ''x'') = []"
    "offsetComment tab [Field 0 0 (BaseT Int_t) ''x'', Field 0 2 (BaseT Short) ''y'']
             (Field 0 2 (BaseT Short) ''y'') = tab @ ''// offset: 0000 (2 bytes)'' @ nl"
    by code_simp+
  show ?thesis
    using first_field_offset_comment [of 0 "''S''" "Field 0 0 (BaseT Int_t) ''x''"
        "[Field 4 0 (BaseT Long) ''y'']"]
      first_field_offset_comment [of 0 "''U''" "Field 0 0 (BaseT Int_t) ''x''"
        "[Field 0 2 (BaseT Short) ''y'']"] c
    by (simp add: sizeComment_def)
qed

section \<open>Properties of the definition of an enumeration\<close>

subsection \<open>Insertion sort\<close>






















subsection \<open>Sorting the members\<close>







end
